theory Spec2Isabelle
  imports Main
begin

section \<open>JavaScript values\<close>

text \<open>
  The server is dynamically typed: request payloads, documents of the store, thrown
  errors and response bodies are all JavaScript values. An object is the list of its
  own enumerable properties in insertion order. \<open>JDate v\<close> stands for
  \<^verbatim>\<open>new Date(v)\<close>. Numbers are integers here; no operation of the modelled code
  computes with fractions.
\<close>

datatype jsval =
    JUndefined
  | JNull
  | JBool bool
  | JNum int
  | JStr string
  | JDate jsval
  | JArr "jsval list"
  | JObj "(string \<times> jsval) list"

text \<open>Truthiness, as \<^verbatim>\<open>!x\<close>, \<^verbatim>\<open>if (x)\<close> and \<^verbatim>\<open>x || y\<close> read it.\<close>

fun truthy :: "jsval \<Rightarrow> bool" where
  "truthy JUndefined = False"
| "truthy JNull = False"
| "truthy (JBool b) = b"
| "truthy (JNum n) = (n \<noteq> 0)"
| "truthy (JStr s) = (s \<noteq> [])"
| "truthy (JDate v) = True"
| "truthy (JArr xs) = True"
| "truthy (JObj kvs) = True"


definition jsOr :: "jsval \<Rightarrow> jsval \<Rightarrow> jsval" where
  "jsOr a b = (if truthy a then a else b)"

definition nullish :: "jsval \<Rightarrow> bool" where
  "nullish v = (v = JUndefined \<or> v = JNull)"

text \<open>\<^verbatim>\<open>a ?? b\<close>\<close>

definition jsCoalesce :: "jsval \<Rightarrow> jsval \<Rightarrow> jsval" where
  "jsCoalesce a b = (if nullish a then b else a)"

text \<open>
  Reading a property. \<open>getProp\<close> is \<^verbatim>\<open>v?.k\<close>: a missing property, and any
  property of a value that is no object, is \<^verbatim>\<open>undefined\<close>.
\<close>

fun getProp :: "jsval \<Rightarrow> string \<Rightarrow> jsval" where
  "getProp (JObj kvs) k = (case map_of kvs k of Some v \<Rightarrow> v | None \<Rightarrow> JUndefined)"
| "getProp v k = JUndefined"

definition mkError :: "string \<Rightarrow> string \<Rightarrow> jsval" where
  "mkError name msg = JObj [(''name'', JStr name), (''message'', JStr msg)]"

text \<open>
  \<open>member\<close> is the plain \<^verbatim>\<open>v.k\<close>, and also the destructuring
  \<^verbatim>\<open>const { k } = v\<close>: on \<^verbatim>\<open>null\<close> and \<^verbatim>\<open>undefined\<close> it throws a TypeError.
\<close>

definition member :: "jsval \<Rightarrow> string \<Rightarrow> jsval + jsval" where
  "member v k =
     (if v = JNull then
        Inl (mkError ''TypeError'' (''Cannot read properties of null (reading '' @ k @ '')''))
      else if v = JUndefined then
        Inl (mkError ''TypeError'' (''Cannot read properties of undefined (reading '' @ k @ '')''))
      else Inr (getProp v k))"

text \<open>Writing a property keeps the position of a key that exists and appends a new one.\<close>

fun setKey :: "string \<Rightarrow> jsval \<Rightarrow> (string \<times> jsval) list \<Rightarrow> (string \<times> jsval) list" where
  "setKey k v [] = [(k, v)]"
| "setKey k v ((k', v') # kvs) = (if k' = k then (k, v) # kvs else (k', v') # setKey k v kvs)"

fun showNat :: "nat \<Rightarrow> string" where
  "showNat n = (if n < 10 then [''0123456789'' ! n]
                else showNat (n div 10) @ [''0123456789'' ! (n mod 10)])"

declare showNat.simps [simp del]

definition showInt :: "int \<Rightarrow> string" where
  "showInt i = (if i < 0 then CHR ''-'' # showNat (nat (- i)) else showNat (nat i))"

text \<open>
  The own enumerable properties of a value, as the spread \<^verbatim>\<open>{ ...v }\<close> and the rest
  pattern copy them: those of an object, the indexed elements of an array and the indexed
  characters of a string, nothing for any other value.
\<close>

fun ownProps :: "jsval \<Rightarrow> (string \<times> jsval) list" where
  "ownProps (JObj kvs) = kvs"
| "ownProps (JArr xs) = zip (map showNat [0..<length xs]) xs"
| "ownProps (JStr s) = zip (map showNat [0..<length s]) (map (\<lambda>c. JStr [c]) s)"
| "ownProps v = []"

definition setProp :: "jsval \<Rightarrow> string \<Rightarrow> jsval \<Rightarrow> jsval" where
  "setProp obj k v = JObj (setKey k v (ownProps obj))"

fun joinWith :: "string \<Rightarrow> string list \<Rightarrow> string" where
  "joinWith sep [] = []"
| "joinWith sep [x] = x"
| "joinWith sep (x # y # ys) = x @ sep @ joinWith sep (y # ys)"

text \<open>
  The string a template literal \<^verbatim>\<open>`${v}`\<close> puts in. The textual form of a Date
  depends on the time zone of the host and is not modelled: a Date prints as the value
  it was built from.
\<close>

fun toStr :: "jsval \<Rightarrow> string" where
  "toStr JUndefined = ''undefined''"
| "toStr JNull = ''null''"
| "toStr (JBool b) = (if b then ''true'' else ''false'')"
| "toStr (JNum n) = showInt n"
| "toStr (JStr s) = s"
| "toStr (JDate v) = toStr v"
| "toStr (JArr xs) = joinWith '','' (map (\<lambda>x. if nullish x then [] else toStr x) xs)"
| "toStr (JObj kvs) = ''[object Object]''"

section \<open>Errors\<close>

text \<open>
  Modelled from the spec: the class \<^verbatim>\<open>AppError\<close> of
  \<^verbatim>\<open>libraries/error-handling/AppError\<close>, which every service and router constructs
  as \<^verbatim>\<open>new AppError(name, message, HTTPStatus)\<close> and whose source is not part of the
  files at hand. It carries a name, a message and the HTTP status the outermost handler
  reads; the status defaults to 500 when the third argument is left out.
\<close>

definition AppError :: "string \<Rightarrow> jsval \<Rightarrow> int \<Rightarrow> jsval" where
  "AppError name msg st =
     JObj [(''name'', JStr name), (''message'', msg), (''HTTPStatus'', JNum st)]"

definition AppError_default :: "string \<Rightarrow> jsval \<Rightarrow> jsval" where
  "AppError_default name msg = AppError name msg 500"

section \<open>The document store\<close>

text \<open>
  A collection of the document store, seen through the calls of the object-document mapper
  that the services make. Every call is a network round trip that can reject:
  \<open>failing\<close> holds the message of the driver's error while the store is unreachable.
  \<open>nextId\<close> is the supply of fresh \<^verbatim>\<open>_id\<close> values.
\<close>

record collection =
  docs :: "jsval list"
  failing :: "string option"
  nextId :: nat

definition hasId :: "jsval \<Rightarrow> jsval \<Rightarrow> bool" where
  "hasId i d = (getProp d ''_id'' = i)"

definition matches :: "(string \<times> jsval) list \<Rightarrow> jsval \<Rightarrow> bool" where
  "matches flt d = list_all (\<lambda>(k, v). getProp d k = v) flt"

definition orNull :: "jsval option \<Rightarrow> jsval" where
  "orNull r = (case r of None \<Rightarrow> JNull | Some d \<Rightarrow> d)"

definition rejected :: "string \<Rightarrow> jsval" where
  "rejected msg = mkError ''MongoError'' msg"

text \<open>\<^verbatim>\<open>Model.findOne(filter).exec()\<close>: the first matching document, or null.\<close>

definition findOne :: "collection \<Rightarrow> (string \<times> jsval) list \<Rightarrow> jsval + jsval" where
  "findOne c flt =
     (case failing c of
        Some msg \<Rightarrow> Inl (rejected msg)
      | None \<Rightarrow> Inr (orNull (find (matches flt) (docs c))))"

text \<open>\<^verbatim>\<open>Model.findById(id)\<close>\<close>

definition findById :: "collection \<Rightarrow> jsval \<Rightarrow> jsval + jsval" where
  "findById c i =
     (case failing c of
        Some msg \<Rightarrow> Inl (rejected msg)
      | None \<Rightarrow> Inr (orNull (find (hasId i) (docs c))))"

text \<open>
  \<^verbatim>\<open>Model.findByIdAndUpdate(id, data, { new: true })\<close>: the properties of
  \<open>data\<close> are set on the first document with that \<^verbatim>\<open>_id\<close>, every other property
  and every other document stays; the result is the document after the update, or null.
\<close>

definition assign :: "jsval \<Rightarrow> jsval \<Rightarrow> jsval" where
  "assign d data = fold (\<lambda>(k, v) acc. setProp acc k v) (ownProps data) d"

fun updateFirst :: "(jsval \<Rightarrow> bool) \<Rightarrow> (jsval \<Rightarrow> jsval) \<Rightarrow> jsval list \<Rightarrow> jsval list" where
  "updateFirst P f [] = []"
| "updateFirst P f (d # ds) = (if P d then f d # ds else d # updateFirst P f ds)"

definition findByIdAndUpdate ::
  "collection \<Rightarrow> jsval \<Rightarrow> jsval \<Rightarrow> jsval + (jsval \<times> collection)" where
  "findByIdAndUpdate c i data =
     (case failing c of
        Some msg \<Rightarrow> Inl (rejected msg)
      | None \<Rightarrow>
          Inr (orNull (map_option (\<lambda>d. assign d data) (find (hasId i) (docs c))),
               c\<lparr>docs := updateFirst (hasId i) (\<lambda>d. assign d data) (docs c)\<rparr>))"

text \<open>\<^verbatim>\<open>Model.findByIdAndDelete(id)\<close>: removes the first document with that id, if any.\<close>

fun removeFirst :: "(jsval \<Rightarrow> bool) \<Rightarrow> jsval list \<Rightarrow> jsval list" where
  "removeFirst P [] = []"
| "removeFirst P (d # ds) = (if P d then ds else d # removeFirst P ds)"

definition findByIdAndDelete :: "collection \<Rightarrow> jsval \<Rightarrow> jsval + (jsval \<times> collection)" where
  "findByIdAndDelete c i =
     (case failing c of
        Some msg \<Rightarrow> Inl (rejected msg)
      | None \<Rightarrow>
          Inr (orNull (find (hasId i) (docs c)), c\<lparr>docs := removeFirst (hasId i) (docs c)\<rparr>))"

text \<open>\<^verbatim>\<open>new Model(data).save()\<close>: the document gets a fresh \<^verbatim>\<open>_id\<close> and is appended.\<close>

definition save :: "collection \<Rightarrow> jsval \<Rightarrow> jsval + (jsval \<times> collection)" where
  "save c data =
     (case failing c of
        Some msg \<Rightarrow> Inl (rejected msg)
      | None \<Rightarrow>
          (let saved = setProp data ''_id'' (JStr (showNat (nextId c)))
           in Inr (saved, c\<lparr>docs := docs c @ [saved], nextId := Suc (nextId c)\<rparr>)))"

section \<open>The repository service\<close>

definition create :: "collection \<Rightarrow> jsval \<Rightarrow> jsval + (jsval \<times> collection)" where
  "create c data =
     (case save c data of
        Inl error \<Rightarrow> Inl (AppError_default ''Failed to create repository'' (getProp error ''message''))
      | Inr r \<Rightarrow> Inr r)"

text \<open>
  The body of the \<^verbatim>\<open>try\<close> block of \<^verbatim>\<open>search\<close>. The second test of both
  fields, which guards the filter, is kept as the source has it.
\<close>

definition search_try :: "collection \<Rightarrow> jsval \<Rightarrow> jsval + jsval" where
  "search_try c searchPayload =
     (let p = jsCoalesce searchPayload (JObj []);
          username = getProp p ''username'';
          repository = getProp p ''repository''
      in if \<not> truthy username \<or> \<not> truthy repository then
           Inl (AppError ''Username and Repository are required'' (JStr ''Bad Request'') 400)
         else
           (let flt = (if truthy username \<and> truthy repository
                       then [(''full_name'', JStr (toStr username @ ''/'' @ toStr repository))]
                       else [])
            in findOne c flt))"

definition search :: "collection \<Rightarrow> jsval \<Rightarrow> jsval + jsval" where
  "search c searchPayload =
     (case search_try c searchPayload of
        Inl error \<Rightarrow> Inl (AppError ''Failed to search repository'' (getProp error ''message'') 400)
      | Inr item \<Rightarrow> Inr item)"

definition getById :: "collection \<Rightarrow> jsval \<Rightarrow> jsval + jsval" where
  "getById c i =
     (case (case findById c i of
              Inl error \<Rightarrow> Inl error
            | Inr item \<Rightarrow> (case member item ''_id'' of Inl error \<Rightarrow> Inl error | Inr _ \<Rightarrow> Inr item)) of
        Inl error \<Rightarrow> Inl (AppError_default ''Failed to get repository'' (getProp error ''message''))
      | Inr item \<Rightarrow> Inr item)"

definition updateById :: "collection \<Rightarrow> jsval \<Rightarrow> jsval \<Rightarrow> jsval + (jsval \<times> collection)" where
  "updateById c i data =
     (case findByIdAndUpdate c i data of
        Inl error \<Rightarrow> Inl (AppError_default ''Failed to update repository'' (getProp error ''message''))
      | Inr r \<Rightarrow> Inr r)"

definition deleteById :: "collection \<Rightarrow> jsval \<Rightarrow> jsval + (jsval \<times> collection)" where
  "deleteById c i =
     (case findByIdAndDelete c i of
        Inl error \<Rightarrow> Inl (AppError_default ''Failed to delete repository'' (getProp error ''message''))
      | Inr (_, c') \<Rightarrow> Inr (JBool True, c'))"

text \<open>
  \<^verbatim>\<open>mapGithubResponseToSchema\<close>: the document made of a provider response on the
  first sync. It reads into \<^verbatim>\<open>response.owner\<close> and \<^verbatim>\<open>response.license\<close>
  and throws where one of them is null or undefined. Both mappings are private to the
  module and are called after \<^verbatim>\<open>const { id } = response\<close> only, so the response is
  never null or undefined here.
\<close>

definition mapGithubResponseToSchema :: "jsval \<Rightarrow> jsval + jsval" where
  "mapGithubResponseToSchema response =
     (let owner = getProp response ''owner''; license = getProp response ''license'' in
      case member owner ''login'' of
        Inl error \<Rightarrow> Inl error
      | Inr login \<Rightarrow>
         (case member license ''key'' of
            Inl error \<Rightarrow> Inl error
          | Inr key \<Rightarrow>
             Inr (JObj
              [(''id'', getProp response ''id''),
               (''node_id'', getProp response ''node_id''),
               (''name'', getProp response ''name''),
               (''full_name'', getProp response ''full_name''),
               (''private'', getProp response ''private''),
               (''owner'', JObj
                  [(''login'', login),
                   (''id'', getProp owner ''id''),
                   (''avatar_url'', getProp owner ''avatar_url''),
                   (''type'', getProp owner ''type'')]),
               (''html_url'', getProp response ''html_url''),
               (''description'', getProp response ''description''),
               (''fork'', getProp response ''fork''),
               (''url'', getProp response ''url''),
               (''created_at'', JDate (getProp response ''created_at'')),
               (''updated_at'', JDate (getProp response ''updated_at'')),
               (''pushed_at'', JDate (getProp response ''pushed_at'')),
               (''homepage'', getProp response ''homepage''),
               (''size'', getProp response ''size''),
               (''stargazers_count'', getProp response ''stargazers_count''),
               (''watchers_count'', getProp response ''watchers_count''),
               (''language'', getProp response ''language''),
               (''languages'', getProp response ''languages''),
               (''forks_count'', getProp response ''forks_count''),
               (''archived'', getProp response ''archived''),
               (''disabled'', getProp response ''disabled''),
               (''open_issues_count'', getProp response ''open_issues_count''),
               (''license'', JObj
                  [(''key'', key),
                   (''name'', getProp license ''name''),
                   (''spdx_id'', getProp license ''spdx_id''),
                   (''url'', getProp license ''url''),
                   (''node_id'', getProp license ''node_id'')]),
               (''topics'', getProp response ''topics''),
               (''visibility'', getProp response ''visibility''),
               (''default_branch'', getProp response ''default_branch'')])))"

text \<open>\<^verbatim>\<open>mapSelectedGithubResponseToSchema\<close>: the fields a later sync overwrites.\<close>

definition mapSelectedGithubResponseToSchema :: "jsval \<Rightarrow> jsval" where
  "mapSelectedGithubResponseToSchema response =
     JObj
      [(''description'', getProp response ''description''),
       (''updated_at'', JDate (getProp response ''updated_at'')),
       (''pushed_at'', JDate (getProp response ''pushed_at'')),
       (''homepage'', getProp response ''homepage''),
       (''size'', getProp response ''size''),
       (''stargazers_count'', getProp response ''stargazers_count''),
       (''watchers_count'', getProp response ''watchers_count''),
       (''language'', getProp response ''language''),
       (''languages'', getProp response ''languages''),
       (''forks_count'', getProp response ''forks_count''),
       (''archived'', getProp response ''archived''),
       (''disabled'', getProp response ''disabled''),
       (''open_issues_count'', getProp response ''open_issues_count''),
       (''topics'', getProp response ''topics'')]"

text \<open>The names of the mirror fields of the claim about the later sync.\<close>

definition mirrorFields :: "string list" where
  "mirrorFields =
     [''description'', ''updated_at'', ''pushed_at'', ''homepage'', ''size'',
      ''stargazers_count'', ''watchers_count'', ''language'', ''languages'', ''forks_count'',
      ''archived'', ''disabled'', ''open_issues_count'', ''topics'']"

definition identityFields :: "string list" where
  "identityFields = [''id'', ''node_id'', ''name'', ''full_name'', ''owner'']"

text \<open>
  \<^verbatim>\<open>fetchGitHubRepoDetails(owner, repo, user)\<close>. The token codec
  (\<^verbatim>\<open>decryptToken\<close> of \<^verbatim>\<open>auth\<close>) and the metadata-fetch client
  (\<^verbatim>\<open>fetchRepoDetails\<close> of \<^verbatim>\<open>libraries/util/githubUtils\<close>) are collaborators
  whose source is not at hand: both are parameters, and both may throw. \<open>users\<close> is the
  user collection, \<open>c\<close> the repository collection. The first part is the body of the
  \<^verbatim>\<open>try\<close> block up to the provider response.
\<close>

definition fetchResponse ::
  "(jsval \<Rightarrow> jsval \<Rightarrow> jsval + jsval) \<Rightarrow> (jsval \<Rightarrow> jsval \<Rightarrow> jsval \<Rightarrow> jsval + jsval) \<Rightarrow>
   collection \<Rightarrow> jsval \<Rightarrow> jsval \<Rightarrow> jsval \<Rightarrow> jsval + jsval" where
  "fetchResponse decryptToken fetchRepoDetails users owner repo user =
     (case member user ''_id'' of
        Inl error \<Rightarrow> Inl error
      | Inr uid \<Rightarrow>
         (case findById users uid of
            Inl error \<Rightarrow> Inl error
          | Inr dbUser \<Rightarrow>
             (case member dbUser ''accessToken'' of
                Inl error \<Rightarrow> Inl error
              | Inr accessToken \<Rightarrow>
                 (case decryptToken accessToken (getProp dbUser ''accessTokenIV'') of
                    Inl error \<Rightarrow> Inl error
                  | Inr token \<Rightarrow> fetchRepoDetails owner repo token))))"

definition upsertRepository :: "collection \<Rightarrow> jsval \<Rightarrow> jsval + (jsval \<times> collection)" where
  "upsertRepository c response =
     (case member response ''id'' of
        Inl error \<Rightarrow> Inl error
      | Inr rid \<Rightarrow>
         (case findOne c [(''id'', rid)] of
            Inl error \<Rightarrow> Inl error
          | Inr existingRepository \<Rightarrow>
             if truthy existingRepository then
               updateById c (getProp existingRepository ''_id'')
                 (mapSelectedGithubResponseToSchema response)
             else
               (case mapGithubResponseToSchema response of
                  Inl error \<Rightarrow> Inl error
                | Inr data \<Rightarrow> create c data)))"

definition fetchGitHubRepoDetails ::
  "(jsval \<Rightarrow> jsval \<Rightarrow> jsval + jsval) \<Rightarrow> (jsval \<Rightarrow> jsval \<Rightarrow> jsval \<Rightarrow> jsval + jsval) \<Rightarrow>
   collection \<Rightarrow> collection \<Rightarrow> jsval \<Rightarrow> jsval \<Rightarrow> jsval \<Rightarrow> jsval + (jsval \<times> collection)" where
  "fetchGitHubRepoDetails decryptToken fetchRepoDetails users c owner repo user =
     (case (case fetchResponse decryptToken fetchRepoDetails users owner repo user of
              Inl error \<Rightarrow> Inl error
            | Inr response \<Rightarrow> upsertRepository c response) of
        Inl error \<Rightarrow>
          Inl (AppError_default ''Failed to fetch repository details'' (getProp error ''message''))
      | Inr r \<Rightarrow> Inr r)"

section \<open>Express: responses and the outermost error handler\<close>

record response =
  status :: jsval
  body :: jsval

text \<open>
  What a middleware or a route handler does with a request: it answers, it hands an error
  to \<^verbatim>\<open>next(error)\<close>, it calls \<^verbatim>\<open>next()\<close>, or an exception escapes it.
\<close>

datatype outcome = Respond response | NextErr jsval | Next | Throws jsval

text \<open>\<^verbatim>\<open>res.json(v)\<close> without a status answers 200.\<close>

definition json :: "int \<Rightarrow> jsval \<Rightarrow> outcome" where
  "json st v = Respond \<lparr>status = JNum st, body = v\<rparr>"

text \<open>
  \<^verbatim>\<open>defineErrorHandlingMiddleware\<close>. \<^verbatim>\<open>errorHandler.handleError\<close> belongs to
  \<^verbatim>\<open>libraries/error-handling\<close>, whose source is not at hand; it is the parameter
  \<open>handleError\<close> and may reject. An error that is an object and says nothing about
  \<^verbatim>\<open>isTrusted\<close> is marked trusted first; an array or a Date thrown as an error has no
  place for the mark in this model and stays as it is.
\<close>

definition markTrusted :: "jsval \<Rightarrow> jsval" where
  "markTrusted error =
     (case error of
        JObj kvs \<Rightarrow>
          (if nullish (getProp error ''isTrusted'') then setProp error ''isTrusted'' (JBool True)
           else error)
      | _ \<Rightarrow> error)"

definition errorStatus :: "jsval \<Rightarrow> jsval" where
  "errorStatus error = jsOr (getProp error ''HTTPStatus'') (JNum 500)"

text \<open>
  \<^verbatim>\<open>res.status(s).json(b).end()\<close> with a status that is computed: the answer is written
  only for an integer from 100 to 999; for any other value writing the head throws a
  RangeError and nothing is answered. The body is built before the answer is written.
\<close>

definition validStatus :: "jsval \<Rightarrow> bool" where
  "validStatus s = (case s of JNum n \<Rightarrow> 100 \<le> n \<and> n \<le> 999 | _ \<Rightarrow> False)"

definition sendJson :: "jsval \<Rightarrow> jsval \<Rightarrow> jsval + response" where
  "sendJson s b =
     (if validStatus s then Inr \<lparr>status = s, body = b\<rparr>
      else Inl (mkError ''RangeError'' (''Invalid status code: '' @ toStr s)))"

definition errorMiddleware :: "(jsval \<Rightarrow> jsval + jsval) \<Rightarrow> jsval \<Rightarrow> jsval + response" where
  "errorMiddleware handleError error =
     (let error' = markTrusted error in
      case handleError error' of
        Inl rejection \<Rightarrow> Inl rejection
      | Inr appError \<Rightarrow>
         (case member appError ''message'' of
            Inl typeError \<Rightarrow> Inl typeError
          | Inr message \<Rightarrow>
             sendJson (errorStatus error')
               (JObj (setKey ''errorMessage'' message (ownProps appError)))))"

text \<open>
  What the client gets in the end: the answer of the route, the answer of the outermost
  error handler for an error handed to \<^verbatim>\<open>next\<close>, the 404 of \<^verbatim>\<open>defineRoutes\<close> when
  every route passed the request on, and nothing when an exception escaped.
\<close>

definition surfaced :: "(jsval \<Rightarrow> jsval + jsval) \<Rightarrow> outcome \<Rightarrow> jsval + response" where
  "surfaced handleError out =
     (case out of
        Respond r \<Rightarrow> Inr r
      | NextErr error \<Rightarrow> errorMiddleware handleError error
      | Next \<Rightarrow> Inr \<lparr>status = JNum 404, body = JStr ''Not Found''\<rparr>
      | Throws error \<Rightarrow> Inl error)"

section \<open>The user router\<close>

text \<open>
  The handlers of \<^verbatim>\<open>GET /:id/follow\<close> and \<^verbatim>\<open>DELETE /:id\<close>. The user service is
  not among the files at hand, so the service function a handler calls is its first
  parameter; it works on a store of any type \<open>'s\<close>, and \<open>followUser\<close> may leave the
  store changed even when it rejects. \<open>reqUser\<close> is \<^verbatim>\<open>req.user\<close>, \<open>pid\<close> is
  \<^verbatim>\<open>req.params.id\<close>, always a string: the strict equality \<^verbatim>\<open>===\<close> holds exactly for
  the string with the same characters.
\<close>

definition followHandler ::
  "(jsval \<Rightarrow> jsval \<Rightarrow> 's \<Rightarrow> (jsval + jsval) \<times> 's) \<Rightarrow> jsval \<Rightarrow> string \<Rightarrow> 's \<Rightarrow> outcome \<times> 's" where
  "followHandler followUserSvc reqUser pid s =
     (case member reqUser ''_id'' of
        Inl typeError \<Rightarrow> (Throws typeError, s)
      | Inr currentUserId \<Rightarrow>
          if currentUserId = JStr pid then
            (NextErr (AppError ''Cannot follow yourself'' (JStr ''Cannot follow yourself'') 400), s)
          else
            (case followUserSvc currentUserId (JStr pid) s of
               (Inl error, s') \<Rightarrow> (NextErr error, s')
             | (Inr result, s') \<Rightarrow> (json 200 (JObj [(''result'', result)]), s')))"

definition deleteHandler ::
  "('s \<Rightarrow> jsval \<Rightarrow> jsval + (jsval \<times> 's)) \<Rightarrow> string \<Rightarrow> 's \<Rightarrow> outcome \<times> 's" where
  "deleteHandler deleteByIdSvc pid s =
     (case deleteByIdSvc s (JStr pid) of
        Inl error \<Rightarrow> (NextErr error, s)
      | Inr (_, s') \<Rightarrow> (json 204 (JObj [(''message'', JStr ''model is deleted'')]), s'))"

text \<open>
  A route runs its middlewares first: \<^verbatim>\<open>logRequest({})\<close>, then
  \<^verbatim>\<open>validateRequest({ schema: idSchema, isParam: true })\<close>. Both come from
  \<^verbatim>\<open>middlewares\<close>, not at hand, and are parameters; the handler runs when each of them
  called \<^verbatim>\<open>next()\<close>.
\<close>

definition guardedRoute ::
  "(string \<Rightarrow> outcome) \<Rightarrow> (string \<Rightarrow> outcome) \<Rightarrow> (string \<Rightarrow> 's \<Rightarrow> outcome \<times> 's) \<Rightarrow>
   string \<Rightarrow> 's \<Rightarrow> outcome \<times> 's" where
  "guardedRoute logRequest validateId h pid s =
     (case logRequest pid of
        Next \<Rightarrow> (case validateId pid of Next \<Rightarrow> h pid s | out \<Rightarrow> (out, s))
      | out \<Rightarrow> (out, s))"

definition followRoute ::
  "(string \<Rightarrow> outcome) \<Rightarrow> (string \<Rightarrow> outcome) \<Rightarrow>
   (jsval \<Rightarrow> jsval \<Rightarrow> 's \<Rightarrow> (jsval + jsval) \<times> 's) \<Rightarrow> jsval \<Rightarrow> string \<Rightarrow> 's \<Rightarrow> outcome \<times> 's" where
  "followRoute logRequest validateId followUserSvc reqUser =
     guardedRoute logRequest validateId (followHandler followUserSvc reqUser)"

definition deleteRoute ::
  "(string \<Rightarrow> outcome) \<Rightarrow> (string \<Rightarrow> outcome) \<Rightarrow>
   ('s \<Rightarrow> jsval \<Rightarrow> jsval + (jsval \<times> 's)) \<Rightarrow> string \<Rightarrow> 's \<Rightarrow> outcome \<times> 's" where
  "deleteRoute logRequest validateId deleteByIdSvc =
     guardedRoute logRequest validateId (deleteHandler deleteByIdSvc)"

section \<open>The role router\<close>

datatype http_method = GET | POST | PUT | DELETE

datatype segment = Lit string | Param string

datatype schema = searchSchema | createSchema | updateSchema | idSchema | permissionsSchema

datatype role_handler =
    SearchH | CountH | CreateH | GetByIdH | UpdateByIdH | DeleteByIdH
  | GetPermissionsH | UpdatePermissionsH

datatype middleware =
    LogRequest | IsAuthorized | ValidateRequest schema bool | Handler role_handler

record request =
  reqMethod :: http_method
  reqPath :: "string list"
  reqParams :: jsval
  reqQuery :: jsval
  reqBody :: jsval
  reqUser :: jsval

text \<open>
  The routes in the order \<^verbatim>\<open>routes()\<close> registers them: method, path and the chain of
  middlewares that ends in the handler. The flag of \<open>ValidateRequest\<close> says whether the
  schema is applied to the query or the parameters (true) or to the body (false).
\<close>

definition roleRoutes :: "(http_method \<times> segment list \<times> middleware list) list" where
  "roleRoutes =
     [(GET, [Lit ''search''],
         [LogRequest, ValidateRequest searchSchema True, Handler SearchH]),
      (GET, [Lit ''count''],
         [LogRequest, ValidateRequest searchSchema True, Handler CountH]),
      (POST, [],
         [LogRequest, IsAuthorized, ValidateRequest createSchema False, Handler CreateH]),
      (GET, [Param ''id''],
         [LogRequest, ValidateRequest idSchema True, Handler GetByIdH]),
      (PUT, [Param ''id''],
         [LogRequest, IsAuthorized, ValidateRequest idSchema True,
          ValidateRequest updateSchema False, Handler UpdateByIdH]),
      (DELETE, [Param ''id''],
         [LogRequest, IsAuthorized, ValidateRequest idSchema True, Handler DeleteByIdH]),
      (GET, [Param ''id'', Lit ''permissions''],
         [LogRequest, ValidateRequest idSchema True, Handler GetPermissionsH]),
      (PUT, [Param ''id'', Lit ''permissions''],
         [LogRequest, IsAuthorized, ValidateRequest idSchema True,
          ValidateRequest permissionsSchema False, Handler UpdatePermissionsH])]"

text \<open>The handlers that change a role.\<close>

definition mutating :: "role_handler \<Rightarrow> bool" where
  "mutating h = (h = CreateH \<or> h = UpdateByIdH \<or> h = DeleteByIdH \<or> h = UpdatePermissionsH)"

text \<open>A path pattern matches segment by segment; a parameter takes one non-empty segment.\<close>

fun matchPath :: "segment list \<Rightarrow> string list \<Rightarrow> bool" where
  "matchPath [] [] = True"
| "matchPath (Lit l # ps) (x # xs) = (l = x \<and> matchPath ps xs)"
| "matchPath (Param n # ps) (x # xs) = (x \<noteq> [] \<and> matchPath ps xs)"
| "matchPath ps xs = False"

text \<open>
  The middlewares \<^verbatim>\<open>logRequest\<close>, \<^verbatim>\<open>isAuthorized\<close> and \<^verbatim>\<open>validateRequest\<close> and the
  role service are not at hand. The middlewares are functions from the request to what
  they do with it; the service functions return a value or throw.
\<close>

record mw_env =
  logRequest :: "request \<Rightarrow> outcome"
  isAuthorized :: "request \<Rightarrow> outcome"
  validateRequest :: "schema \<Rightarrow> bool \<Rightarrow> request \<Rightarrow> outcome"

record role_service =
  svcSearch :: "jsval \<Rightarrow> jsval + jsval"
  svcCount :: "jsval \<Rightarrow> jsval + jsval"
  svcCreate :: "jsval \<Rightarrow> jsval + jsval"
  svcGetById :: "jsval \<Rightarrow> jsval + jsval"
  svcUpdateById :: "jsval \<Rightarrow> jsval \<Rightarrow> jsval + jsval"
  svcDeleteById :: "jsval \<Rightarrow> jsval + jsval"
  svcGetAllGroupedByType :: "jsval + jsval"
  svcUpdateRolePermissions :: "jsval \<Rightarrow> jsval \<Rightarrow> jsval + jsval"

definition roleNotFound :: jsval where
  "roleNotFound = AppError ''Role not found'' (JStr ''Role not found'') 404"

text \<open>
  The body of each handler: the service call inside \<^verbatim>\<open>try\<close>, the answer, and
  \<^verbatim>\<open>next(error)\<close> in the \<^verbatim>\<open>catch\<close>. \<^verbatim>\<open>role.permissions\<close> is a map, and
  \<^verbatim>\<open>Object.fromEntries\<close> makes the object of its entries.
\<close>

fun runHandler :: "role_service \<Rightarrow> role_handler \<Rightarrow> request \<Rightarrow> outcome" where
  "runHandler svc SearchH req =
     (case svcSearch svc (reqQuery req) of
        Inl error \<Rightarrow> NextErr error
      | Inr items \<Rightarrow> json 200 items)"
| "runHandler svc CountH req =
     (case svcCount svc (reqQuery req) of
        Inl error \<Rightarrow> NextErr error
      | Inr cnt \<Rightarrow> json 200 (JObj [(''total'', cnt)]))"
| "runHandler svc CreateH req =
     (case svcCreate svc (reqBody req) of
        Inl error \<Rightarrow> NextErr error
      | Inr item \<Rightarrow> json 201 item)"
| "runHandler svc GetByIdH req =
     (case svcGetById svc (getProp (reqParams req) ''id'') of
        Inl error \<Rightarrow> NextErr error
      | Inr item \<Rightarrow> if \<not> truthy item then NextErr roleNotFound else json 200 item)"
| "runHandler svc UpdateByIdH req =
     (case svcUpdateById svc (getProp (reqParams req) ''id'') (reqBody req) of
        Inl error \<Rightarrow> NextErr error
      | Inr item \<Rightarrow> if \<not> truthy item then NextErr roleNotFound else json 200 item)"
| "runHandler svc DeleteByIdH req =
     (case svcDeleteById svc (getProp (reqParams req) ''id'') of
        Inl error \<Rightarrow> NextErr error
      | Inr _ \<Rightarrow> json 204 (JObj [(''message'', JStr ''Role is deleted'')]))"
| "runHandler svc GetPermissionsH req =
     (case svcGetById svc (getProp (reqParams req) ''id'') of
        Inl error \<Rightarrow> NextErr error
      | Inr role \<Rightarrow>
          if \<not> truthy role then NextErr roleNotFound
          else
            (case svcGetAllGroupedByType svc of
               Inl error \<Rightarrow> NextErr error
             | Inr resources \<Rightarrow>
                 if nullish (getProp role ''permissions'') then
                   NextErr (mkError ''TypeError'' ''undefined is not iterable'')
                 else
                   json 200 (JObj
                     [(''roleId'', getProp role ''_id''),
                      (''roleName'', getProp role ''name''),
                      (''resourcesByType'', resources),
                      (''permissions'', JObj (ownProps (getProp role ''permissions'')))])))"
| "runHandler svc UpdatePermissionsH req =
     (case member (reqBody req) ''permissions'' of
        Inl typeError \<Rightarrow> NextErr typeError
      | Inr permissions \<Rightarrow>
         (case svcUpdateRolePermissions svc (getProp (reqParams req) ''id'') permissions of
            Inl error \<Rightarrow> NextErr error
          | Inr role \<Rightarrow> json 200 role))"

fun runMiddleware :: "mw_env \<Rightarrow> role_service \<Rightarrow> request \<Rightarrow> middleware \<Rightarrow> outcome" where
  "runMiddleware env svc req LogRequest = logRequest env req"
| "runMiddleware env svc req IsAuthorized = isAuthorized env req"
| "runMiddleware env svc req (ValidateRequest sch q) = validateRequest env sch q req"
| "runMiddleware env svc req (Handler h) = runHandler svc h req"

text \<open>
  A chain runs from the left and stops at the first middleware that does not call
  \<^verbatim>\<open>next()\<close>. The result is the list of the middlewares that ran, and what the last did.
\<close>

fun runChain ::
  "mw_env \<Rightarrow> role_service \<Rightarrow> request \<Rightarrow> middleware list \<Rightarrow> middleware list \<times> outcome" where
  "runChain env svc req [] = ([], Next)"
| "runChain env svc req (m # ms) =
     (case runMiddleware env svc req m of
        Next \<Rightarrow> (case runChain env svc req ms of (tr, out) \<Rightarrow> (m # tr, out))
      | out \<Rightarrow> ([m], out))"

text \<open>
  The router tries its routes in order; a route whose method and path match runs its
  chain, and the next route is tried only when the whole chain called \<^verbatim>\<open>next()\<close>.
\<close>

fun dispatch ::
  "mw_env \<Rightarrow> role_service \<Rightarrow> (http_method \<times> segment list \<times> middleware list) list \<Rightarrow>
   request \<Rightarrow> middleware list \<times> outcome" where
  "dispatch env svc [] req = ([], Next)"
| "dispatch env svc ((m, p, chain) # rs) req =
     (if m = reqMethod req \<and> matchPath p (reqPath req) then
        (case runChain env svc req chain of
           (tr, Next) \<Rightarrow> (case dispatch env svc rs req of (tr', out) \<Rightarrow> (tr @ tr', out))
         | (tr, out) \<Rightarrow> (tr, out))
      else dispatch env svc rs req)"

text \<open>
  In a chain, every occurrence of the handler \<open>h\<close> comes after an occurrence of
  \<open>IsAuthorized\<close>.
\<close>

fun authBefore :: "role_handler \<Rightarrow> middleware list \<Rightarrow> bool" where
  "authBefore h [] = True"
| "authBefore h (m # ms) = (if m = IsAuthorized then True else m \<noteq> Handler h \<and> authBefore h ms)"

section \<open>Login\<close>

text \<open>
  The callback that \<^verbatim>\<open>POST /api/login\<close> gives to \<^verbatim>\<open>passport.authenticate\<close>. It
  gets the error, the user and the info of the strategy. \<open>logIn\<close> is \<^verbatim>\<open>req.logIn\<close>,
  which establishes the session and reports an error or undefined. The rest pattern
  \<^verbatim>\<open>const { password, ...userWithoutPassword } = user\<close> copies every own property of the
  user but \<^verbatim>\<open>password\<close>.
\<close>

definition withoutPassword :: "jsval \<Rightarrow> jsval" where
  "withoutPassword user = JObj (filter (\<lambda>(k, v). k \<noteq> ''password'') (ownProps user))"

definition loginCallback :: "(jsval \<Rightarrow> jsval) \<Rightarrow> jsval \<Rightarrow> jsval \<Rightarrow> jsval \<Rightarrow> outcome" where
  "loginCallback logIn err user info =
     (if truthy err then NextErr err
      else if \<not> truthy user then
        (case member info ''message'' of
           Inl typeError \<Rightarrow> Throws typeError
         | Inr m \<Rightarrow> json 401 (JObj [(''message'', jsOr m (JStr ''Authentication failed''))]))
      else
        (let err' = logIn user in
         if truthy err' then NextErr err'
         else json 200 (JObj [(''message'', JStr ''Login successful''),
                              (''user'', withoutPassword user)])))"

text \<open>
  \<open>authenticate\<close> is \<^verbatim>\<open>passport.authenticate('local', callback)\<close> up to the call of the
  callback: it reads the request and yields the three arguments of the callback.
\<close>

definition loginRoute ::
  "(jsval \<Rightarrow> jsval \<Rightarrow> jsval \<times> jsval \<times> jsval) \<Rightarrow> (jsval \<Rightarrow> jsval) \<Rightarrow> jsval \<Rightarrow> jsval \<Rightarrow> outcome" where
  "loginRoute authenticate logIn rbody rquery =
     (case authenticate rbody rquery of (err, user, info) \<Rightarrow> loginCallback logIn err user info)"

text \<open>
  The local strategy of the passport library: the credentials come from the body or else
  the query; without both the request fails with \<^verbatim>\<open>Missing credentials\<close>; otherwise the
  verify function of the application decides.
\<close>

definition passportLocal ::
  "(jsval \<Rightarrow> jsval \<Rightarrow> jsval \<times> jsval \<times> jsval) \<Rightarrow> jsval \<Rightarrow> jsval \<Rightarrow> jsval \<times> jsval \<times> jsval" where
  "passportLocal verify rbody rquery =
     (let username = jsOr (getProp rbody ''username'') (getProp rquery ''username'');
          password = jsOr (getProp rbody ''password'') (getProp rquery ''password'')
      in if \<not> truthy username \<or> \<not> truthy password then
           (JNull, JBool False, JObj [(''message'', JStr ''Missing credentials'')])
         else verify username password)"

text \<open>
  Modelled from the spec: the verify function \<^verbatim>\<open>localStrategy\<close> of \<^verbatim>\<open>auth\<close>, whose
  source is not at hand. It looks the user up in the credential store by username and
  fails when there is none (no such user); it compares the password with the stored hash
  and fails when they differ (bad password); on success it hands over the user record.
  \<open>compare\<close> is the salted hash comparison.
\<close>

definition localStrategy ::
  "(jsval \<Rightarrow> jsval \<Rightarrow> bool) \<Rightarrow> collection \<Rightarrow> jsval \<Rightarrow> jsval \<Rightarrow> jsval \<times> jsval \<times> jsval" where
  "localStrategy compare users username password =
     (case findOne users [(''username'', username)] of
        Inl error \<Rightarrow> (error, JUndefined, JUndefined)
      | Inr user \<Rightarrow>
          if \<not> truthy user then
            (JNull, JBool False, JObj [(''message'', JStr ''no such user'')])
          else if \<not> compare password (getProp user ''password'') then
            (JNull, JBool False, JObj [(''message'', JStr ''bad password'')])
          else (JNull, user, JUndefined))"

section \<open>Following a user\<close>






section \<open>Properties of values, errors and the outermost handler\<close>

lemma map_of_setKey: "map_of (setKey k v kvs) k' = (if k' = k then Some v else map_of kvs k')"
  by (induction kvs) auto

lemma getProp_setProp_obj:
  "getProp (setProp (JObj kvs) k v) k' = (if k' = k then v else getProp (JObj kvs) k')"
  by (simp add: setProp_def map_of_setKey)

lemma member_ok: "\<not> nullish v \<Longrightarrow> member v k = Inr (getProp v k)"
  by (simp add: member_def nullish_def)

lemma getProp_str_obj: "getProp v k = JStr s \<Longrightarrow> member v k = Inr (JStr s)"
  by (cases v) (simp_all add: member_def)

lemma getProp_markTrusted:
  "k \<noteq> ''isTrusted'' \<Longrightarrow> getProp (markTrusted e) k = getProp e k"
  by (cases e) (simp_all add: markTrusted_def getProp_setProp_obj)

lemma errorStatus_markTrusted: "errorStatus (markTrusted e) = errorStatus e"
  by (simp add: errorStatus_def getProp_markTrusted)

lemma errorStatus_AppError: "st \<noteq> 0 \<Longrightarrow> errorStatus (AppError name msg st) = JNum st"
  by (simp add: errorStatus_def AppError_def jsOr_def)

lemma sendJson_ok:
  "100 \<le> n \<Longrightarrow> n \<le> 999 \<Longrightarrow> sendJson (JNum n) b = Inr \<lparr>status = JNum n, body = b\<rparr>"
  by (simp add: sendJson_def validStatus_def)

lemma sendJson_refused:
  "n < 100 \<or> 999 < n \<Longrightarrow> \<exists>e. sendJson (JNum n) b = Inl e"
  by (auto simp: sendJson_def validStatus_def)

lemma errorMiddleware_ok:
  assumes "handleError (markTrusted e) = Inr a" and "\<not> nullish a"
    and "errorStatus e = JNum n" and "100 \<le> n" and "n \<le> 999"
  shows "errorMiddleware handleError e =
           Inr \<lparr>status = JNum n,
                body = JObj (setKey ''errorMessage'' (getProp a ''message'') (ownProps a))\<rparr>"
  using assms by (simp add: errorMiddleware_def member_ok errorStatus_markTrusted sendJson_ok)

lemma surfaced_NextErr:
  assumes "h (markTrusted e) = Inr a" and "\<not> nullish a"
    and "errorStatus e = JNum n" and "100 \<le> n" and "n \<le> 999"
  shows "\<exists>b. surfaced h (NextErr e) = Inr \<lparr>status = JNum n, body = b\<rparr>
            \<and> getProp b ''errorMessage'' = getProp a ''message''"
  using assms by (simp add: surfaced_def errorMiddleware_ok map_of_setKey)

text \<open>
  Claim C6. Let \<^verbatim>\<open>errorHandler.handleError\<close> resolve with an error object that carries
  the message of the error it was given. Then the outermost handler answers with a JSON
  body that holds the message of the error as \<^verbatim>\<open>errorMessage\<close>; the status of the
  answer is the \<^verbatim>\<open>HTTPStatus\<close> of the error when the error has that field, an HTTP
  status code, and it is 500 when the error has no such field.
\<close>

theorem error_handler_response:
  assumes "handleError (markTrusted error) = Inr appError" and "\<not> nullish appError"
    and "getProp appError ''message'' = getProp error ''message''"
  shows "(\<forall>n. getProp error ''HTTPStatus'' = JNum n \<and> 100 \<le> n \<and> n \<le> 999 \<longrightarrow>
            (\<exists>b. errorMiddleware handleError error = Inr \<lparr>status = JNum n, body = b\<rparr>
                \<and> getProp b ''errorMessage'' = getProp error ''message''))
       \<and> (getProp error ''HTTPStatus'' = JUndefined \<longrightarrow>
            (\<exists>b. errorMiddleware handleError error = Inr \<lparr>status = JNum 500, body = b\<rparr>
                \<and> getProp b ''errorMessage'' = getProp error ''message''))"
proof (intro conjI allI impI)
  fix n
  assume st: "getProp error ''HTTPStatus'' = JNum n \<and> 100 \<le> n \<and> n \<le> 999"
  then have "errorStatus error = JNum n"
    by (auto simp: errorStatus_def jsOr_def)
  with st assms
  show "\<exists>b. errorMiddleware handleError error = Inr \<lparr>status = JNum n, body = b\<rparr>
            \<and> getProp b ''errorMessage'' = getProp error ''message''"
    by (simp add: errorMiddleware_ok map_of_setKey)
next
  assume "getProp error ''HTTPStatus'' = JUndefined"
  then have "errorStatus error = JNum 500"
    by (simp add: errorStatus_def jsOr_def)
  with assms
  show "\<exists>b. errorMiddleware handleError error = Inr \<lparr>status = JNum 500, body = b\<rparr>
            \<and> getProp b ''errorMessage'' = getProp error ''message''"
    by (simp add: errorMiddleware_ok map_of_setKey)
qed

text \<open>
  An error of the role router with its status 404, and a TypeError, which has no
  \<^verbatim>\<open>HTTPStatus\<close>, through a \<^verbatim>\<open>handleError\<close> that hands the error back.
\<close>

theorem error_handler_response_witness:
  "(\<exists>b. errorMiddleware Inr (AppError ''Role not found'' (JStr ''Role not found'') 404)
          = Inr \<lparr>status = JNum 404, body = b\<rparr>
        \<and> getProp b ''errorMessage'' = JStr ''Role not found'')
   \<and> (\<exists>b. errorMiddleware Inr (mkError ''TypeError'' ''x is not a function'')
          = Inr \<lparr>status = JNum 500, body = b\<rparr>
        \<and> getProp b ''errorMessage'' = JStr ''x is not a function'')"
proof -
  let ?e = "AppError ''Role not found'' (JStr ''Role not found'') 404"
  let ?t = "mkError ''TypeError'' ''x is not a function''"
  have m1: "getProp (markTrusted ?e) ''message'' = getProp ?e ''message''"
    by (simp add: getProp_markTrusted)
  have n1: "\<not> nullish (markTrusted ?e)"
    by (simp add: markTrusted_def AppError_def nullish_def setProp_def)
  have s1: "getProp ?e ''HTTPStatus'' = JNum 404 \<and> (100::int) \<le> 404 \<and> (404::int) \<le> 999"
    by (simp add: AppError_def)
  have m2: "getProp (markTrusted ?t) ''message'' = getProp ?t ''message''"
    by (simp add: getProp_markTrusted)
  have n2: "\<not> nullish (markTrusted ?t)"
    by (simp add: markTrusted_def mkError_def nullish_def setProp_def)
  have s2: "getProp ?t ''HTTPStatus'' = JUndefined"
    by (simp add: mkError_def)
  from error_handler_response [of Inr ?e "markTrusted ?e", OF refl n1 m1] s1
  have "\<exists>b. errorMiddleware Inr ?e = Inr \<lparr>status = JNum 404, body = b\<rparr>
           \<and> getProp b ''errorMessage'' = getProp ?e ''message''"
    by blast
  moreover
  from error_handler_response [of Inr ?t "markTrusted ?t", OF refl n2 m2] s2
  have "\<exists>b. errorMiddleware Inr ?t = Inr \<lparr>status = JNum 500, body = b\<rparr>
           \<and> getProp b ''errorMessage'' = getProp ?t ''message''"
    by blast
  moreover have "getProp ?e ''message'' = JStr ''Role not found''"
    by (simp add: AppError_def)
  moreover have "getProp ?t ''message'' = JStr ''x is not a function''"
    by (simp add: mkError_def)
  ultimately show ?thesis by simp
qed

section \<open>Properties of the repository service\<close>

lemma removeFirst_none: "find P ds = None \<Longrightarrow> removeFirst P ds = ds"
  by (induction ds) (auto split: if_splits)

lemma matches_full_name: "matches [(''full_name'', v)] d = (getProp d ''full_name'' = v)"
  by (simp add: matches_def)


text \<open>
  Claim C8. For every id with no repository document, \<^verbatim>\<open>getById\<close> throws an AppError:
  with the store reachable it is the TypeError of reading \<^verbatim>\<open>_id\<close> of null that the
  \<^verbatim>\<open>catch\<close> wraps, never the value null and never a 404. The error carries the status
  500, and the outermost handler answers it with 500.
\<close>

theorem getById_missing_throws:
  assumes "find (hasId i) (docs c) = None"
    and "e = AppError ''Failed to get repository''
               (case failing c of
                  None \<Rightarrow> JStr ''Cannot read properties of null (reading _id)''
                | Some msg \<Rightarrow> JStr msg) 500"
  shows "getById c i = Inl e \<and> getProp e ''HTTPStatus'' = JNum 500
       \<and> (\<forall>h a. h (markTrusted e) = Inr a \<and> \<not> nullish a \<longrightarrow>
             (\<exists>b. surfaced h (NextErr e) = Inr \<lparr>status = JNum 500, body = b\<rparr>))"
proof -
  have "getById c i = Inl e"
    using assms
    by (simp add: getById_def findById_def orNull_def member_def mkError_def rejected_def
          AppError_default_def split: option.splits)
  moreover have "getProp e ''HTTPStatus'' = JNum 500"
    using assms(2) by (simp add: AppError_def)
  moreover have "errorStatus e = JNum 500"
    using assms(2) by (simp add: errorStatus_AppError)
  ultimately show ?thesis
    using surfaced_NextErr [of _ e _ 500] by auto
qed

theorem getById_missing_throws_witness:
  "getById \<lparr>docs = [JObj [(''_id'', JStr ''1''), (''name'', JStr ''hello'')]],
            failing = None, nextId = 2\<rparr> (JStr ''2'')
     = Inl (AppError ''Failed to get repository''
              (JStr ''Cannot read properties of null (reading _id)'') 500)
   \<and> surfaced Inr (NextErr (AppError ''Failed to get repository''
              (JStr ''Cannot read properties of null (reading _id)'') 500))
     = Inr \<lparr>status = JNum 500,
            body = JObj [(''name'', JStr ''Failed to get repository''),
                         (''message'', JStr ''Cannot read properties of null (reading _id)''),
                         (''HTTPStatus'', JNum 500), (''isTrusted'', JBool True),
                         (''errorMessage'', JStr ''Cannot read properties of null (reading _id)'')]\<rparr>"
  using getById_missing_throws
    [of "JStr ''2''" "\<lparr>docs = [JObj [(''_id'', JStr ''1''), (''name'', JStr ''hello'')]],
                        failing = None, nextId = 2\<rparr>"
        "AppError ''Failed to get repository''
           (JStr ''Cannot read properties of null (reading _id)'') 500"]
  by (simp add: hasId_def surfaced_def errorMiddleware_def markTrusted_def AppError_def
        setProp_def nullish_def member_def errorStatus_def jsOr_def sendJson_def validStatus_def)


lemma falsy_string_field:
  "v = JUndefined \<or> v = JStr s \<Longrightarrow> (\<not> truthy v) = (v = JUndefined \<or> v = JStr [])"
  by auto

lemma search_eq:
  "search c searchPayload =
     (if truthy (getProp (jsCoalesce searchPayload (JObj [])) ''username'')
         \<and> truthy (getProp (jsCoalesce searchPayload (JObj [])) ''repository'') then
        (case failing c of
           Some msg \<Rightarrow> Inl (AppError ''Failed to search repository'' (JStr msg) 400)
         | None \<Rightarrow>
             Inr (orNull (find (\<lambda>d. getProp d ''full_name''
                    = JStr (toStr (getProp (jsCoalesce searchPayload (JObj [])) ''username'') @ ''/''
                            @ toStr (getProp (jsCoalesce searchPayload (JObj [])) ''repository'')))
                  (docs c))))
      else Inl (AppError ''Failed to search repository'' (JStr ''Bad Request'') 400))"
  by (simp add: search_def search_try_def Let_def findOne_def AppError_def rejected_def mkError_def
       matches_full_name [abs_def] split: option.splits)

text \<open>
  Claim C9, as amended. \<^verbatim>\<open>search\<close> throws exactly when the username or the repository
  of the payload is missing or empty (falsy; for a field that is a string when it is there
  this is missing or empty, \<open>falsy_string_field\<close>) or the query of the store fails; what
  it throws is always the AppError with status 400; when both fields are there and the
  query succeeds it returns the first document whose \<^verbatim>\<open>full_name\<close> is
  \<^verbatim>\<open>username/repository\<close>, or null when there is none.
\<close>

theorem search_characterised:
  fixes c :: collection and searchPayload :: jsval
  defines "p \<equiv> jsCoalesce searchPayload (JObj [])"
  defines "username \<equiv> getProp p ''username''"
  defines "repository \<equiv> getProp p ''repository''"
  shows "((\<exists>e. search c searchPayload = Inl e) \<longleftrightarrow>
            (\<not> truthy username \<or> \<not> truthy repository \<or> failing c \<noteq> None))
       \<and> (\<forall>e. search c searchPayload = Inl e \<longrightarrow>
             (\<exists>msg. e = AppError ''Failed to search repository'' msg 400))
       \<and> (truthy username \<and> truthy repository \<and> failing c = None \<longrightarrow>
             search c searchPayload =
               Inr (orNull (find (\<lambda>d. getProp d ''full_name''
                                   = JStr (toStr username @ ''/'' @ toStr repository)) (docs c))))"
  unfolding p_def username_def repository_def
  by (auto simp: search_eq split: option.splits)

text \<open>A match behind another document, no match, and a payload without repository.\<close>

theorem search_characterised_witness:
  "search \<lparr>docs = [JObj [(''_id'', JStr ''1''), (''full_name'', JStr ''octocat/spoon'')],
                   JObj [(''_id'', JStr ''2''), (''full_name'', JStr ''octocat/hello'')]],
           failing = None, nextId = 3\<rparr>
          (JObj [(''username'', JStr ''octocat''), (''repository'', JStr ''hello'')])
     = Inr (JObj [(''_id'', JStr ''2''), (''full_name'', JStr ''octocat/hello'')])
   \<and> search \<lparr>docs = [], failing = None, nextId = 0\<rparr>
          (JObj [(''username'', JStr ''octocat''), (''repository'', JStr ''hello'')])
     = Inr JNull
   \<and> search \<lparr>docs = [], failing = None, nextId = 0\<rparr> (JObj [(''username'', JStr ''octocat'')])
     = Inl (AppError ''Failed to search repository'' (JStr ''Bad Request'') 400)"
proof -
  let ?c = "\<lparr>docs = [JObj [(''_id'', JStr ''1''), (''full_name'', JStr ''octocat/spoon'')],
                   JObj [(''_id'', JStr ''2''), (''full_name'', JStr ''octocat/hello'')]],
           failing = None, nextId = 3\<rparr>"
  let ?e = "\<lparr>docs = [], failing = None, nextId = 0\<rparr>"
  let ?p = "JObj [(''username'', JStr ''octocat''), (''repository'', JStr ''hello'')]"
  have "search ?c ?p = Inr (JObj [(''_id'', JStr ''2''), (''full_name'', JStr ''octocat/hello'')])"
    using search_characterised [of ?c ?p, THEN conjunct2, THEN conjunct2]
    by (simp add: jsCoalesce_def nullish_def orNull_def)
  moreover have "search ?e ?p = Inr JNull"
    using search_characterised [of ?e ?p, THEN conjunct2, THEN conjunct2]
    by (simp add: jsCoalesce_def nullish_def orNull_def)
  moreover have "search ?e (JObj [(''username'', JStr ''octocat'')])
                   = Inl (AppError ''Failed to search repository'' (JStr ''Bad Request'') 400)"
  proof -
    from search_characterised [of ?e "JObj [(''username'', JStr ''octocat'')]", THEN conjunct1]
    obtain e where e: "search ?e (JObj [(''username'', JStr ''octocat'')]) = Inl e"
      by (auto simp: jsCoalesce_def nullish_def)
    then show ?thesis by (simp add: search_eq jsCoalesce_def nullish_def)
  qed
  ultimately show ?thesis by simp
qed

text \<open>
  Claim C9 as it is written fails in the direction from the error to the payload: with
  username and repository both there and not empty, a store that is unreachable makes
  \<^verbatim>\<open>search\<close> throw the AppError with status 400 all the same.
\<close>

theorem search_400_counterexample:
  "getProp (JObj [(''username'', JStr ''octocat''), (''repository'', JStr ''hello'')]) ''username''
     = JStr ''octocat''
   \<and> getProp (JObj [(''username'', JStr ''octocat''), (''repository'', JStr ''hello'')]) ''repository''
     = JStr ''hello''
   \<and> search \<lparr>docs = [], failing = Some ''connection lost'', nextId = 0\<rparr>
        (JObj [(''username'', JStr ''octocat''), (''repository'', JStr ''hello'')])
     = Inl (AppError ''Failed to search repository'' (JStr ''connection lost'') 400)"
  by (simp add: search_def search_try_def jsCoalesce_def nullish_def findOne_def rejected_def
        mkError_def)

section \<open>Properties of the user router\<close>

text \<open>
  The handler of \<^verbatim>\<open>DELETE /:id\<close> looks at nothing the service returns: whenever the
  service function returns, the answer is 204 with the message. The user service behind
  the route is not at hand. The \<^verbatim>\<open>deleteById\<close> of the repository service returns true
  whenever the call of the store does not throw, whether it found a document or not.
\<close>

lemma deleteHandler_answers_204:
  "svc s (JStr pid) = Inr (r, s') \<Longrightarrow>
   deleteHandler svc pid s =
     (Respond \<lparr>status = JNum 204, body = JObj [(''message'', JStr ''model is deleted'')]\<rparr>, s')"
  by (simp add: deleteHandler_def json_def)

lemma deleteById_returns_true:
  "failing c = None \<Longrightarrow>
   deleteById c i = Inr (JBool True, c\<lparr>docs := removeFirst (hasId i) (docs c)\<rparr>)"
  by (simp add: deleteById_def findByIdAndDelete_def)

text \<open>
  Claim C2. On \<^verbatim>\<open>GET /:id/follow\<close>, when the id of the authenticated user is the id of
  the path, the handler hands the error \<^verbatim>\<open>Cannot follow yourself\<close> with status 400 to
  \<^verbatim>\<open>next\<close>, whatever the follow operation of the service is, and the store is as it was:
  the operation is not called. The outermost handler answers that error with 400.
\<close>

theorem self_follow_rejected:
  assumes "logReq pid = Next" and "validateId pid = Next"
    and "getProp authUser ''_id'' = JStr pid"
  shows "followRoute logReq validateId followUserSvc authUser pid s =
           (NextErr (AppError ''Cannot follow yourself'' (JStr ''Cannot follow yourself'') 400), s)
       \<and> (\<forall>h a. h (markTrusted (AppError ''Cannot follow yourself'' (JStr ''Cannot follow yourself'') 400)) = Inr a
                 \<and> \<not> nullish a \<longrightarrow>
            (\<exists>b. surfaced h (NextErr (AppError ''Cannot follow yourself'' (JStr ''Cannot follow yourself'') 400))
                   = Inr \<lparr>status = JNum 400, body = b\<rparr>
                \<and> getProp b ''errorMessage'' = getProp a ''message''))"
proof -
  have "followRoute logReq validateId followUserSvc authUser pid s =
           (NextErr (AppError ''Cannot follow yourself'' (JStr ''Cannot follow yourself'') 400), s)"
    using assms
    by (simp add: followRoute_def guardedRoute_def followHandler_def getProp_str_obj)
  moreover have "errorStatus (AppError ''Cannot follow yourself'' (JStr ''Cannot follow yourself'') 400) = JNum 400"
    by (simp add: errorStatus_AppError)
  ultimately show ?thesis
    using surfaced_NextErr
      [of _ "AppError ''Cannot follow yourself'' (JStr ''Cannot follow yourself'') 400" _ 400]
    by auto
qed

text \<open>
  A service that counts its calls in the store: following oneself leaves the count at 0,
  following somebody else raises it.
\<close>

theorem self_follow_rejected_witness:
  "followRoute (\<lambda>p. Next) (\<lambda>p. Next) (\<lambda>a b n. (Inr JNull, Suc n))
      (JObj [(''_id'', JStr ''65f0''), (''username'', JStr ''alice'')]) ''65f0'' (0::nat)
    = (NextErr (AppError ''Cannot follow yourself'' (JStr ''Cannot follow yourself'') 400), 0)
   \<and> followRoute (\<lambda>p. Next) (\<lambda>p. Next) (\<lambda>a b n. (Inr JNull, Suc n))
      (JObj [(''_id'', JStr ''65f0''), (''username'', JStr ''alice'')]) ''77aa'' (0::nat)
    = (json 200 (JObj [(''result'', JNull)]), 1)"
  using self_follow_rejected [of "\<lambda>p. Next" "''65f0''" "\<lambda>p. Next"
      "JObj [(''_id'', JStr ''65f0''), (''username'', JStr ''alice'')]"
      "\<lambda>a b n. (Inr JNull, Suc n)" "0::nat"]
  by (simp add: followRoute_def guardedRoute_def followHandler_def member_def)

section \<open>Properties of the role router\<close>

lemma runChain_guard:
  assumes "runChain env svc req chain = (tr, out)" and "authBefore h chain"
    and "Handler h \<in> set tr"
  shows "isAuthorized env req = Next \<and>
         (\<exists>pre post. tr = pre @ Handler h # post \<and> IsAuthorized \<in> set pre)"
  using assms
proof (induction chain arbitrary: tr out)
  case Nil
  then show ?case by simp
next
  case (Cons m ms)
  show ?case
  proof (cases "runMiddleware env svc req m = Next")
    case False
    with Cons.prems have "tr = [m]"
      by (cases "runMiddleware env svc req m") simp_all
    with Cons.prems show ?thesis by (auto split: if_splits)
  next
    case True
    obtain tr' out' where r: "runChain env svc req ms = (tr', out')" by fastforce
    with True Cons.prems have tr: "tr = m # tr'" by simp
    show ?thesis
    proof (cases "m = IsAuthorized")
      case isA: True
      with True have a: "isAuthorized env req = Next" by simp
      from tr Cons.prems isA have "Handler h \<in> set tr'" by simp
      then obtain p q where "tr' = p @ Handler h # q" by (auto simp: in_set_conv_decomp)
      with tr isA have "tr = (IsAuthorized # p) @ Handler h # q \<and> IsAuthorized \<in> set (IsAuthorized # p)"
        by simp
      with a show ?thesis by blast
    next
      case notA: False
      with Cons.prems tr have "authBefore h ms" and "Handler h \<in> set tr'" by auto
      from Cons.IH [OF r this] obtain pre post where
        "isAuthorized env req = Next" "tr' = pre @ Handler h # post" "IsAuthorized \<in> set pre"
        by blast
      with tr have "tr = (m # pre) @ Handler h # post \<and> IsAuthorized \<in> set (m # pre)" by simp
      with \<open>isAuthorized env req = Next\<close> show ?thesis by blast
    qed
  qed
qed

lemma dispatch_guard:
  assumes "dispatch env svc rs req = (tr, out)"
    and "list_all (\<lambda>(m, p, chain). authBefore h chain) rs"
    and "Handler h \<in> set tr"
  shows "isAuthorized env req = Next \<and>
         (\<exists>pre post. tr = pre @ Handler h # post \<and> IsAuthorized \<in> set pre)"
  using assms
proof (induction rs arbitrary: tr out)
  case Nil
  then show ?case by simp
next
  case (Cons r rs)
  obtain m p chain where r: "r = (m, p, chain)" by (cases r) auto
  show ?case
  proof (cases "m = reqMethod req \<and> matchPath p (reqPath req)")
    case False
    with Cons r show ?thesis by auto
  next
    case True
    obtain t1 o1 where c: "runChain env svc req chain = (t1, o1)" by fastforce
    from Cons.prems r have ab: "authBefore h chain" by simp
    show ?thesis
    proof (cases "o1 = Next")
      case False
      with True c r Cons.prems have "tr = t1" by (cases o1) auto
      with runChain_guard [OF c ab] Cons.prems show ?thesis by simp
    next
      case nx: True
      obtain t2 o2 where d: "dispatch env svc rs req = (t2, o2)" by fastforce
      with True c r nx Cons.prems have tr: "tr = t1 @ t2" by auto
      from Cons.prems tr consider "Handler h \<in> set t1" | "Handler h \<in> set t2" by auto
      then show ?thesis
      proof cases
        case 1
        from runChain_guard [OF c ab 1] obtain pre post where
          "isAuthorized env req = Next" "t1 = pre @ Handler h # post" "IsAuthorized \<in> set pre"
          by blast
        with tr have "tr = pre @ Handler h # (post @ t2)" by simp
        with \<open>isAuthorized env req = Next\<close> \<open>IsAuthorized \<in> set pre\<close> show ?thesis by blast
      next
        case 2
        from Cons.prems r have "list_all (\<lambda>(m, p, chain). authBefore h chain) rs" by simp
        from Cons.IH [OF d this 2] obtain pre post where
          "isAuthorized env req = Next" "t2 = pre @ Handler h # post" "IsAuthorized \<in> set pre"
          by blast
        with tr have "tr = (t1 @ pre) @ Handler h # post \<and> IsAuthorized \<in> set (t1 @ pre)" by simp
        with \<open>isAuthorized env req = Next\<close> show ?thesis by blast
      qed
    qed
  qed
qed

lemma roleRoutes_guarded:
  "mutating h \<Longrightarrow> list_all (\<lambda>(m, p, chain). authBefore h chain) roleRoutes"
  by (auto simp: mutating_def roleRoutes_def)

text \<open>
  Claim C5. Whenever the handler of a route that changes a role (\<^verbatim>\<open>POST /\<close>,
  \<^verbatim>\<open>PUT /:id\<close>, \<^verbatim>\<open>DELETE /:id\<close>, \<^verbatim>\<open>PUT /:id/permissions\<close>) runs for a request,
  \<^verbatim>\<open>isAuthorized\<close> ran before it for that request and called \<^verbatim>\<open>next()\<close>: whatever
  the middlewares and the service do, no such handler is reached without the gate.
\<close>

theorem role_mutation_behind_gate:
  assumes "dispatch env svc roleRoutes req = (tr, out)" and "mutating h"
    and "Handler h \<in> set tr"
  shows "isAuthorized env req = Next \<and>
         (\<exists>pre post. tr = pre @ Handler h # post \<and> IsAuthorized \<in> set pre)"
  using dispatch_guard [OF assms(1) roleRoutes_guarded [OF assms(2)] assms(3)] .

text \<open>
  \<^verbatim>\<open>PUT /42\<close> by an administrator reaches the handler behind the gate; by anybody else it
  stops at the gate.
\<close>

theorem role_mutation_behind_gate_witness:
  "dispatch
     \<lparr>logRequest = (\<lambda>r. Next),
      isAuthorized = (\<lambda>r. if getProp (reqUser r) ''isAdmin'' = JBool True then Next
                           else NextErr (AppError ''AuthorizationError'' (JStr ''Forbidden'') 403)),
      validateRequest = (\<lambda>s q r. Next)\<rparr>
     \<lparr>svcSearch = Inr, svcCount = Inr, svcCreate = Inr, svcGetById = Inr,
      svcUpdateById = (\<lambda>i d. Inr d), svcDeleteById = Inr, svcGetAllGroupedByType = Inr JNull,
      svcUpdateRolePermissions = (\<lambda>i d. Inr d)\<rparr>
     roleRoutes
     \<lparr>reqMethod = PUT, reqPath = [''42''], reqParams = JObj [(''id'', JStr ''42'')],
      reqQuery = JObj [], reqBody = JObj [(''name'', JStr ''editor'')],
      reqUser = JObj [(''isAdmin'', JBool True)]\<rparr>
   = ([LogRequest, IsAuthorized, ValidateRequest idSchema True,
       ValidateRequest updateSchema False, Handler UpdateByIdH],
      json 200 (JObj [(''name'', JStr ''editor'')]))
   \<and> dispatch
     \<lparr>logRequest = (\<lambda>r. Next),
      isAuthorized = (\<lambda>r. if getProp (reqUser r) ''isAdmin'' = JBool True then Next
                           else NextErr (AppError ''AuthorizationError'' (JStr ''Forbidden'') 403)),
      validateRequest = (\<lambda>s q r. Next)\<rparr>
     \<lparr>svcSearch = Inr, svcCount = Inr, svcCreate = Inr, svcGetById = Inr,
      svcUpdateById = (\<lambda>i d. Inr d), svcDeleteById = Inr, svcGetAllGroupedByType = Inr JNull,
      svcUpdateRolePermissions = (\<lambda>i d. Inr d)\<rparr>
     roleRoutes
     \<lparr>reqMethod = PUT, reqPath = [''42''], reqParams = JObj [(''id'', JStr ''42'')],
      reqQuery = JObj [], reqBody = JObj [(''name'', JStr ''editor'')],
      reqUser = JObj [(''isAdmin'', JBool False)]\<rparr>
   = ([LogRequest, IsAuthorized],
      NextErr (AppError ''AuthorizationError'' (JStr ''Forbidden'') 403))"
  using role_mutation_behind_gate
    [of "\<lparr>logRequest = (\<lambda>r. Next),
      isAuthorized = (\<lambda>r. if getProp (reqUser r) ''isAdmin'' = JBool True then Next
                           else NextErr (AppError ''AuthorizationError'' (JStr ''Forbidden'') 403)),
      validateRequest = (\<lambda>s q r. Next)\<rparr>"
     "\<lparr>svcSearch = Inr, svcCount = Inr, svcCreate = Inr, svcGetById = Inr,
      svcUpdateById = (\<lambda>i d. Inr d), svcDeleteById = Inr, svcGetAllGroupedByType = Inr JNull,
      svcUpdateRolePermissions = (\<lambda>i d. Inr d)\<rparr>"
     "\<lparr>reqMethod = PUT, reqPath = [''42''], reqParams = JObj [(''id'', JStr ''42'')],
      reqQuery = JObj [], reqBody = JObj [(''name'', JStr ''editor'')],
      reqUser = JObj [(''isAdmin'', JBool True)]\<rparr>"
     "[LogRequest, IsAuthorized, ValidateRequest idSchema True,
       ValidateRequest updateSchema False, Handler UpdateByIdH]"
     "json 200 (JObj [(''name'', JStr ''editor'')])" UpdateByIdH]
  by (simp add: roleRoutes_def json_def mutating_def)

section \<open>Properties of the login route\<close>

lemma map_of_filter_key:
  "k \<noteq> p \<Longrightarrow> map_of (filter (\<lambda>(k', v). k' \<noteq> p) kvs) k = map_of kvs k"
  by (induction kvs) auto

lemma map_of_filter_dropped: "map_of (filter (\<lambda>(k', v). k' \<noteq> p) kvs) p = None"
  by (induction kvs) auto

lemma key_filter_dropped: "p \<notin> fst ` set (filter (\<lambda>(k', v). k' \<noteq> p) kvs)"
  by (induction kvs) auto

text \<open>
  Claim C4. When the local strategy accepts the username and password and hands over a
  user object, and the session is established, \<^verbatim>\<open>POST /api/login\<close> answers with
  status 200, the message \<^verbatim>\<open>Login successful\<close> and the user without its
  \<^verbatim>\<open>password\<close> property: the user of the body has no key \<^verbatim>\<open>password\<close>, every
  other property of the user is kept with its value, and nothing is added. When the
  strategy rejects the pair and says why, as it does for a wrong password, the answer has
  status 401 and the message of the strategy.
\<close>

theorem login_response:
  assumes "authenticate rbody rquery = (err, user, info)" and "\<not> truthy err"
  shows "(\<forall>kvs. user = JObj kvs \<and> \<not> truthy (logIn user) \<longrightarrow>
            (\<exists>u. loginRoute authenticate logIn rbody rquery =
                    Respond \<lparr>status = JNum 200,
                             body = JObj [(''message'', JStr ''Login successful''),
                                          (''user'', JObj u)]\<rparr>
                \<and> ''password'' \<notin> fst ` set u
                \<and> map_of u ''password'' = None
                \<and> (\<forall>k. k \<noteq> ''password'' \<longrightarrow> map_of u k = map_of kvs k)
                \<and> (\<forall>k v. (k, v) \<in> set u \<longrightarrow> (k, v) \<in> set kvs)))
       \<and> (\<not> truthy user \<and> \<not> nullish info \<longrightarrow>
            loginRoute authenticate logIn rbody rquery =
              Respond \<lparr>status = JNum 401,
                       body = JObj [(''message'',
                                     if truthy (getProp info ''message'')
                                     then getProp info ''message''
                                     else JStr ''Authentication failed'')]\<rparr>)"
proof (intro conjI allI impI)
  fix kvs
  assume "user = JObj kvs \<and> \<not> truthy (logIn user)"
  then have ok: "user = JObj kvs" "\<not> truthy (logIn (JObj kvs))" by auto
  let ?u = "filter (\<lambda>(k, v). k \<noteq> ''password'') kvs"
  from assms ok have "loginRoute authenticate logIn rbody rquery =
      Respond \<lparr>status = JNum 200,
               body = JObj [(''message'', JStr ''Login successful''), (''user'', JObj ?u)]\<rparr>"
    by (simp add: loginRoute_def loginCallback_def withoutPassword_def json_def Let_def)
  moreover have "''password'' \<notin> fst ` set ?u" by (rule key_filter_dropped)
  moreover have "map_of ?u ''password'' = None" by (rule map_of_filter_dropped)
  moreover have "\<forall>k. k \<noteq> ''password'' \<longrightarrow> map_of ?u k = map_of kvs k"
    by (simp add: map_of_filter_key)
  moreover have "\<forall>k v. (k, v) \<in> set ?u \<longrightarrow> (k, v) \<in> set kvs" by simp
  ultimately show "\<exists>u. loginRoute authenticate logIn rbody rquery =
                    Respond \<lparr>status = JNum 200,
                             body = JObj [(''message'', JStr ''Login successful''),
                                          (''user'', JObj u)]\<rparr>
                \<and> ''password'' \<notin> fst ` set u
                \<and> map_of u ''password'' = None
                \<and> (\<forall>k. k \<noteq> ''password'' \<longrightarrow> map_of u k = map_of kvs k)
                \<and> (\<forall>k v. (k, v) \<in> set u \<longrightarrow> (k, v) \<in> set kvs)"
    by blast
next
  assume "\<not> truthy user \<and> \<not> nullish info"
  with assms show "loginRoute authenticate logIn rbody rquery =
              Respond \<lparr>status = JNum 401,
                       body = JObj [(''message'',
                                     if truthy (getProp info ''message'')
                                     then getProp info ''message''
                                     else JStr ''Authentication failed'')]\<rparr>"
    by (simp add: loginRoute_def loginCallback_def member_ok json_def jsOr_def)
qed

text \<open>
  The scenario of the spec: alice with the password pw1 logs in with pw1, then with a wrong
  password. The hash comparison is equality here.
\<close>

theorem login_response_witness:
  "loginRoute
     (passportLocal (localStrategy (\<lambda>p h. p = h)
        \<lparr>docs = [JObj [(''_id'', JStr ''1''), (''username'', JStr ''alice''),
                       (''password'', JStr ''pw1'')]],
         failing = None, nextId = 2\<rparr>))
     (\<lambda>u. JUndefined)
     (JObj [(''username'', JStr ''alice''), (''password'', JStr ''pw1'')]) JUndefined
   = Respond \<lparr>status = JNum 200,
              body = JObj [(''message'', JStr ''Login successful''),
                           (''user'', JObj [(''_id'', JStr ''1''), (''username'', JStr ''alice'')])]\<rparr>
   \<and> loginRoute
     (passportLocal (localStrategy (\<lambda>p h. p = h)
        \<lparr>docs = [JObj [(''_id'', JStr ''1''), (''username'', JStr ''alice''),
                       (''password'', JStr ''pw1'')]],
         failing = None, nextId = 2\<rparr>))
     (\<lambda>u. JUndefined)
     (JObj [(''username'', JStr ''alice''), (''password'', JStr ''wrong'')]) JUndefined
   = Respond \<lparr>status = JNum 401, body = JObj [(''message'', JStr ''bad password'')]\<rparr>"
proof -
  let ?users = "\<lparr>docs = [JObj [(''_id'', JStr ''1''), (''username'', JStr ''alice''),
                       (''password'', JStr ''pw1'')]],
         failing = None, nextId = 2\<rparr>"
  let ?auth = "passportLocal (localStrategy (\<lambda>p h. p = h) ?users)"
  let ?good = "JObj [(''username'', JStr ''alice''), (''password'', JStr ''pw1'')]"
  let ?bad = "JObj [(''username'', JStr ''alice''), (''password'', JStr ''wrong'')]"
  have g: "?auth ?good JUndefined
            = (JNull, JObj [(''_id'', JStr ''1''), (''username'', JStr ''alice''),
                            (''password'', JStr ''pw1'')], JUndefined)"
    by (simp add: passportLocal_def localStrategy_def findOne_def matches_def orNull_def jsOr_def)
  have b: "?auth ?bad JUndefined
            = (JNull, JBool False, JObj [(''message'', JStr ''bad password'')])"
    by (simp add: passportLocal_def localStrategy_def findOne_def matches_def orNull_def jsOr_def)
  have nt: "\<not> truthy JNull" by simp
  from login_response [of ?auth ?bad JUndefined JNull "JBool False"
         "JObj [(''message'', JStr ''bad password'')]" "\<lambda>u. JUndefined", OF b nt, THEN conjunct2]
  have r401: "loginRoute ?auth (\<lambda>u. JUndefined) ?bad JUndefined
        = Respond \<lparr>status = JNum 401, body = JObj [(''message'', JStr ''bad password'')]\<rparr>"
    by (simp add: nullish_def)
  have "loginRoute ?auth (\<lambda>u. JUndefined) ?good JUndefined
        = Respond \<lparr>status = JNum 200,
              body = JObj [(''message'', JStr ''Login successful''),
                           (''user'', JObj [(''_id'', JStr ''1''), (''username'', JStr ''alice'')])]\<rparr>"
    by (simp add: loginRoute_def g loginCallback_def withoutPassword_def json_def)
  with r401 show ?thesis by simp
qed

section \<open>Properties of the repository sync\<close>

lemma setProp_obj: "setProp (JObj kvs) k v = JObj (setKey k v kvs)"
  by (simp add: setProp_def)

lemma getProp_fold_other:
  "k \<notin> fst ` set props \<Longrightarrow>
   getProp (fold (\<lambda>(k, v) acc. setProp acc k v) props (JObj kvs)) k = getProp (JObj kvs) k"
proof (induction props arbitrary: kvs)
  case Nil
  then show ?case by simp
next
  case (Cons a props)
  obtain k1 v1 where a: "a = (k1, v1)" by (cases a)
  with Cons.prems have "k \<noteq> k1" and "k \<notin> fst ` set props" by auto
  with Cons.IH [of "setKey k1 v1 kvs"] a show ?case
    by (simp add: setProp_obj map_of_setKey)
qed

lemma getProp_fold_in:
  "distinct (map fst props) \<Longrightarrow> (k, v) \<in> set props \<Longrightarrow>
   getProp (fold (\<lambda>(k, v) acc. setProp acc k v) props (JObj kvs)) k = v"
proof (induction props arbitrary: kvs)
  case Nil
  then show ?case by simp
next
  case (Cons a props)
  obtain k1 v1 where a: "a = (k1, v1)" by (cases a)
  show ?case
  proof (cases "(k, v) = a")
    case True
    with a Cons.prems have "k \<notin> fst ` set props" by auto
    from getProp_fold_other [OF this, of "setKey k1 v1 kvs"] True a show ?thesis
      by (simp add: setProp_obj map_of_setKey)
  next
    case False
    with Cons.prems have "(k, v) \<in> set props" and "distinct (map fst props)" by auto
    from Cons.IH [OF this(2) this(1), of "setKey k1 v1 kvs"] a show ?thesis
      by (simp add: setProp_obj)
  qed
qed

lemma mapSelected_keys:
  "map fst (ownProps (mapSelectedGithubResponseToSchema r)) = mirrorFields"
  by (simp add: mapSelectedGithubResponseToSchema_def mirrorFields_def)

lemma distinct_mirrorFields: "distinct mirrorFields"
  by (simp add: mirrorFields_def)

lemma assign_frame:
  assumes "k \<notin> set mirrorFields"
  shows "getProp (assign (JObj kvs) (mapSelectedGithubResponseToSchema r)) k = getProp (JObj kvs) k"
proof -
  have "k \<notin> fst ` set (ownProps (mapSelectedGithubResponseToSchema r))"
    using assms mapSelected_keys [of r] by (metis list.set_map)
  then show ?thesis unfolding assign_def by (rule getProp_fold_other)
qed

lemma getProp_in_props:
  "distinct (map fst kvs) \<Longrightarrow> k \<in> set (map fst kvs) \<Longrightarrow> (k, getProp (JObj kvs) k) \<in> set kvs"
  by (induction kvs) (auto split: if_splits simp: rev_image_eqI)

lemma assign_mirror:
  assumes "k \<in> set mirrorFields"
  shows "getProp (assign (JObj kvs) (mapSelectedGithubResponseToSchema r)) k
          = getProp (mapSelectedGithubResponseToSchema r) k"
proof -
  obtain ps where ps: "mapSelectedGithubResponseToSchema r = JObj ps"
    by (simp add: mapSelectedGithubResponseToSchema_def)
  with mapSelected_keys [of r] have keys: "map fst ps = mirrorFields" by simp
  with distinct_mirrorFields have d: "distinct (map fst ps)" by simp
  from assms keys have "k \<in> set (map fst ps)" by simp
  from getProp_in_props [OF d this] have "(k, getProp (JObj ps) k) \<in> set ps" .
  from getProp_fold_in [OF d this] ps show ?thesis by (simp add: assign_def)
qed

lemma find_hasId_distinct:
  "distinct (map (\<lambda>d. getProp d ''_id'') ds) \<Longrightarrow> d \<in> set ds \<Longrightarrow>
   find (hasId (getProp d ''_id'')) ds = Some d"
  by (induction ds) (auto simp: hasId_def rev_image_eqI)

lemma updateFirst_distinct:
  "distinct (map (\<lambda>d. getProp d ''_id'') ds) \<Longrightarrow> d \<in> set ds \<Longrightarrow>
   updateFirst (hasId (getProp d ''_id'')) f ds = map (\<lambda>x. if x = d then f d else x) ds"
proof (induction ds)
  case Nil
  then show ?case by simp
next
  case (Cons a ds)
  show ?case
  proof (cases "a = d")
    case True
    with Cons.prems have "\<forall>x\<in>set ds. x \<noteq> d" by (auto simp: rev_image_eqI)
    then have "map (\<lambda>x. if x = d then f d else x) ds = ds" by (induction ds) auto
    with True show ?thesis by (simp add: hasId_def)
  next
    case False
    with Cons.prems have "d \<in> set ds" by simp
    with Cons.prems have "getProp a ''_id'' \<noteq> getProp d ''_id''" by (auto simp: rev_image_eqI)
    with Cons False \<open>d \<in> set ds\<close> show ?thesis by (simp add: hasId_def)
  qed
qed

lemma find_in_set: "find P xs = Some x \<Longrightarrow> x \<in> set xs"
  by (induction xs) (auto split: if_splits)

lemma upsert_existing:
  assumes "\<not> nullish response" and "failing c = None"
    and "distinct (map (\<lambda>d. getProp d ''_id'') (docs c))"
    and "find (matches [(''id'', getProp response ''id'')]) (docs c) = Some (JObj kvs)"
  shows "upsertRepository c response =
          Inr (assign (JObj kvs) (mapSelectedGithubResponseToSchema response),
               c\<lparr>docs := map (\<lambda>x. if x = JObj kvs
                                   then assign (JObj kvs) (mapSelectedGithubResponseToSchema response)
                                   else x) (docs c)\<rparr>)"
proof -
  from assms(4) have mem: "JObj kvs \<in> set (docs c)" by (rule find_in_set)
  note f = find_hasId_distinct [OF assms(3) mem]
  note u = updateFirst_distinct [OF assms(3) mem]
  show ?thesis
    using assms(1,2,4) f u
    by (simp add: upsertRepository_def member_ok findOne_def orNull_def updateById_def
          findByIdAndUpdate_def)
qed

lemma upsert_new:
  assumes "\<not> nullish response" and "failing c = None"
    and "find (matches [(''id'', getProp response ''id'')]) (docs c) = None"
    and "mapGithubResponseToSchema response = Inr data"
  shows "upsertRepository c response =
          Inr (setProp data ''_id'' (JStr (showNat (nextId c))),
               c\<lparr>docs := docs c @ [setProp data ''_id'' (JStr (showNat (nextId c)))],
                  nextId := Suc (nextId c)\<rparr>)"
  using assms
  by (simp add: upsertRepository_def member_ok findOne_def orNull_def create_def save_def Let_def)

lemma mapSelected_values:
  "getProp (mapSelectedGithubResponseToSchema r) ''description'' = getProp r ''description''"
  "getProp (mapSelectedGithubResponseToSchema r) ''updated_at'' = JDate (getProp r ''updated_at'')"
  "getProp (mapSelectedGithubResponseToSchema r) ''pushed_at'' = JDate (getProp r ''pushed_at'')"
  "getProp (mapSelectedGithubResponseToSchema r) ''homepage'' = getProp r ''homepage''"
  "getProp (mapSelectedGithubResponseToSchema r) ''size'' = getProp r ''size''"
  "getProp (mapSelectedGithubResponseToSchema r) ''stargazers_count'' = getProp r ''stargazers_count''"
  "getProp (mapSelectedGithubResponseToSchema r) ''watchers_count'' = getProp r ''watchers_count''"
  "getProp (mapSelectedGithubResponseToSchema r) ''language'' = getProp r ''language''"
  "getProp (mapSelectedGithubResponseToSchema r) ''languages'' = getProp r ''languages''"
  "getProp (mapSelectedGithubResponseToSchema r) ''forks_count'' = getProp r ''forks_count''"
  "getProp (mapSelectedGithubResponseToSchema r) ''archived'' = getProp r ''archived''"
  "getProp (mapSelectedGithubResponseToSchema r) ''disabled'' = getProp r ''disabled''"
  "getProp (mapSelectedGithubResponseToSchema r) ''open_issues_count'' = getProp r ''open_issues_count''"
  "getProp (mapSelectedGithubResponseToSchema r) ''topics'' = getProp r ''topics''"
  by (simp_all add: mapSelectedGithubResponseToSchema_def)

text \<open>
  A later sync. When \<^verbatim>\<open>fetchGitHubRepoDetails\<close> has the response of the provider and
  finds a repository document with the numeric id of the response, it sets the fourteen
  mirror fields to the values of the response, the three times as dates, and nothing
  else: every other property of the document, \<^verbatim>\<open>id\<close>, \<^verbatim>\<open>node_id\<close>,
  \<^verbatim>\<open>name\<close>, \<^verbatim>\<open>full_name\<close> and \<^verbatim>\<open>owner\<close> among them, and every other
  document stay as they were.
\<close>

lemma later_sync_sets_mirror_fields_only:
  assumes "fetchResponse decryptToken fetchRepoDetails users owner repo user = Inr response"
    and "\<not> nullish response" and "failing c = None"
    and "distinct (map (\<lambda>d. getProp d ''_id'') (docs c))"
    and "find (matches [(''id'', getProp response ''id'')]) (docs c) = Some (JObj kvs)"
  shows "\<exists>d'. fetchGitHubRepoDetails decryptToken fetchRepoDetails users c owner repo user
                 = Inr (d', c\<lparr>docs := map (\<lambda>x. if x = JObj kvs then d' else x) (docs c)\<rparr>)
             \<and> (\<forall>k. k \<notin> set mirrorFields \<longrightarrow> getProp d' k = getProp (JObj kvs) k)
             \<and> (\<forall>k \<in> set identityFields. getProp d' k = getProp (JObj kvs) k)
             \<and> getProp d' ''description'' = getProp response ''description''
             \<and> getProp d' ''updated_at'' = JDate (getProp response ''updated_at'')
             \<and> getProp d' ''pushed_at'' = JDate (getProp response ''pushed_at'')
             \<and> getProp d' ''homepage'' = getProp response ''homepage''
             \<and> getProp d' ''size'' = getProp response ''size''
             \<and> getProp d' ''stargazers_count'' = getProp response ''stargazers_count''
             \<and> getProp d' ''watchers_count'' = getProp response ''watchers_count''
             \<and> getProp d' ''language'' = getProp response ''language''
             \<and> getProp d' ''languages'' = getProp response ''languages''
             \<and> getProp d' ''forks_count'' = getProp response ''forks_count''
             \<and> getProp d' ''archived'' = getProp response ''archived''
             \<and> getProp d' ''disabled'' = getProp response ''disabled''
             \<and> getProp d' ''open_issues_count'' = getProp response ''open_issues_count''
             \<and> getProp d' ''topics'' = getProp response ''topics''"
proof -
  let ?d' = "assign (JObj kvs) (mapSelectedGithubResponseToSchema response)"
  have run: "fetchGitHubRepoDetails decryptToken fetchRepoDetails users c owner repo user
           = Inr (?d', c\<lparr>docs := map (\<lambda>x. if x = JObj kvs then ?d' else x) (docs c)\<rparr>)"
    using assms(1) upsert_existing [OF assms(2,3,4,5)]
    by (simp add: fetchGitHubRepoDetails_def)
  have frame: "\<forall>k. k \<notin> set mirrorFields \<longrightarrow> getProp ?d' k = getProp (JObj kvs) k"
    by (simp add: assign_frame)
  have ident: "\<forall>k \<in> set identityFields. getProp ?d' k = getProp (JObj kvs) k"
  proof
    fix k assume "k \<in> set identityFields"
    then have "k \<notin> set mirrorFields" by (auto simp: identityFields_def mirrorFields_def)
    then show "getProp ?d' k = getProp (JObj kvs) k" by (rule assign_frame)
  qed
  have mirror: "\<And>k. k \<in> set mirrorFields \<Longrightarrow>
      getProp ?d' k = getProp (mapSelectedGithubResponseToSchema response) k"
    by (rule assign_mirror)
  have vals:
    "getProp ?d' ''description'' = getProp response ''description''"
    "getProp ?d' ''updated_at'' = JDate (getProp response ''updated_at'')"
    "getProp ?d' ''pushed_at'' = JDate (getProp response ''pushed_at'')"
    "getProp ?d' ''homepage'' = getProp response ''homepage''"
    "getProp ?d' ''size'' = getProp response ''size''"
    "getProp ?d' ''stargazers_count'' = getProp response ''stargazers_count''"
    "getProp ?d' ''watchers_count'' = getProp response ''watchers_count''"
    "getProp ?d' ''language'' = getProp response ''language''"
    "getProp ?d' ''languages'' = getProp response ''languages''"
    "getProp ?d' ''forks_count'' = getProp response ''forks_count''"
    "getProp ?d' ''archived'' = getProp response ''archived''"
    "getProp ?d' ''disabled'' = getProp response ''disabled''"
    "getProp ?d' ''open_issues_count'' = getProp response ''open_issues_count''"
    "getProp ?d' ''topics'' = getProp response ''topics''"
    by (simp_all add: mirror mirrorFields_def mapSelected_values)
  from run frame ident vals show ?thesis by blast
qed

text \<open>
  A first sync of a repository with an owner and a license saves the document of the
  full mapping under a fresh \<^verbatim>\<open>_id\<close>.
\<close>

lemma first_sync_creates:
  assumes "fetchResponse decryptToken fetchRepoDetails users owner repo user = Inr response"
    and "\<not> nullish response" and "failing c = None"
    and "find (matches [(''id'', getProp response ''id'')]) (docs c) = None"
    and "mapGithubResponseToSchema response = Inr data"
  shows "fetchGitHubRepoDetails decryptToken fetchRepoDetails users c owner repo user
          = Inr (setProp data ''_id'' (JStr (showNat (nextId c))),
                 c\<lparr>docs := docs c @ [setProp data ''_id'' (JStr (showNat (nextId c)))],
                    nextId := Suc (nextId c)\<rparr>)"
  using assms(1) upsert_new [OF assms(2,3,4,5)]
  by (simp add: fetchGitHubRepoDetails_def)

text \<open>
  Claim C7 fails on the first sync of a repository without a license. The provider
  reports \<^verbatim>\<open>license: null\<close> for it; with no repository document of that id the full
  mapping reads \<^verbatim>\<open>response.license.key\<close>, the TypeError is caught and rethrown, and
  \<^verbatim>\<open>fetchGitHubRepoDetails\<close> throws instead of creating the document: the store is as
  it was.
\<close>

theorem first_sync_without_license_throws:
  assumes "fetchResponse decryptToken fetchRepoDetails users owner repo user = Inr response"
    and "\<not> nullish response" and "failing c = None"
    and "find (matches [(''id'', getProp response ''id'')]) (docs c) = None"
    and "\<not> nullish (getProp response ''owner'')"
    and "getProp response ''license'' = JNull"
  shows "fetchGitHubRepoDetails decryptToken fetchRepoDetails users c owner repo user
          = Inl (JObj [(''name'', JStr ''Failed to fetch repository details''),
                       (''message'', JStr ''Cannot read properties of null (reading key)''),
                       (''HTTPStatus'', JNum 500)])"
  using assms
  by (simp add: fetchGitHubRepoDetails_def upsertRepository_def member_ok findOne_def orNull_def
        mapGithubResponseToSchema_def Let_def member_def [of JNull] mkError_def
        AppError_default_def AppError_def)

text \<open>
  The repository octocat/hello without a license, synced into an empty collection by a
  user with a token.
\<close>

theorem first_sync_without_license_throws_witness:
  "fetchGitHubRepoDetails (\<lambda>t iv. Inr (JStr ''gho_token''))
        (\<lambda>ow rp tk. Inr (JObj [(''id'', JNum 7), (''name'', JStr ''hello''),
                                (''full_name'', JStr ''octocat/hello''),
                                (''owner'', JObj [(''login'', JStr ''octocat''), (''id'', JNum 1)]),
                                (''description'', JStr ''first repository''),
                                (''license'', JNull)]))
        \<lparr>docs = [JObj [(''_id'', JStr ''u1''), (''accessToken'', JStr ''c1ph3r''),
                       (''accessTokenIV'', JStr ''1v'')]], failing = None, nextId = 2\<rparr>
        \<lparr>docs = [], failing = None, nextId = 0\<rparr>
        (JStr ''octocat'') (JStr ''hello'') (JObj [(''_id'', JStr ''u1'')])
   = Inl (JObj [(''name'', JStr ''Failed to fetch repository details''),
                (''message'', JStr ''Cannot read properties of null (reading key)''),
                (''HTTPStatus'', JNum 500)])"
proof -
  let ?resp = "JObj [(''id'', JNum 7), (''name'', JStr ''hello''),
                     (''full_name'', JStr ''octocat/hello''),
                     (''owner'', JObj [(''login'', JStr ''octocat''), (''id'', JNum 1)]),
                     (''description'', JStr ''first repository''),
                     (''license'', JNull)]"
  let ?dT = "\<lambda>(t::jsval) (iv::jsval). (Inr (JStr ''gho_token'') :: jsval + jsval)"
  let ?fR = "\<lambda>(ow::jsval) (rp::jsval) (tk::jsval). (Inr ?resp :: jsval + jsval)"
  let ?users = "\<lparr>docs = [JObj [(''_id'', JStr ''u1''), (''accessToken'', JStr ''c1ph3r''),
                       (''accessTokenIV'', JStr ''1v'')]], failing = None, nextId = 2\<rparr>"
  let ?c = "\<lparr>docs = [], failing = None, nextId = 0\<rparr>"
  have a1: "fetchResponse ?dT ?fR ?users (JStr ''octocat'') (JStr ''hello'')
              (JObj [(''_id'', JStr ''u1'')]) = Inr ?resp"
    by (simp add: fetchResponse_def member_def findById_def hasId_def orNull_def)
  have a2: "\<not> nullish ?resp" by (simp add: nullish_def)
  have a3: "failing ?c = None" by simp
  have a4: "find (matches [(''id'', getProp ?resp ''id'')]) (docs ?c) = None" by simp
  have a5: "\<not> nullish (getProp ?resp ''owner'')" by (simp add: nullish_def)
  have a6: "getProp ?resp ''license'' = JNull" by simp
  from first_sync_without_license_throws [OF a1 a2 a3 a4 a5 a6] show ?thesis .
qed

section \<open>Properties of following a user\<close>













end
